theory Spec2Isabelle
  imports Complex_Main
begin

section \<open>Dates and times\<close>

text \<open>
  The program works with Python \<open>datetime\<close> values (and pandas \<open>Timestamp\<close>s, a subclass).
  A naive \<open>datetime\<close> is a point on the proleptic Gregorian calendar with microsecond
  resolution. It is modelled by the number of microseconds since midnight of ordinal day 0,
  that is \<open>toordinal() * 86400 * 10^6\<close> plus the microsecond of the day. On that number
  Python's comparison of datetimes is \<open>\<le>\<close>, adding a \<open>timedelta\<close> is \<open>+\<close>, and
  \<open>weekday()\<close> and \<open>time()\<close> are the arithmetic below. A \<open>time\<close> object is
  modelled by its microsecond of the day, on which Python's tuple comparison of
  (hour, minute, second, microsecond) is \<open>\<le>\<close>.
\<close>

type_synonym datetime = int
type_synonym time = int

definition US_PER_SEC :: int where
  "US_PER_SEC = 1000000"

definition US_PER_MIN :: int where
  "US_PER_MIN = 60 * US_PER_SEC"

definition US_PER_DAY :: int where
  "US_PER_DAY = 24 * 60 * US_PER_MIN"

text \<open>CPython's \<open>_is_leap\<close>, \<open>_days_before_year\<close>, \<open>_days_before_month\<close> and \<open>_ymd2ord\<close>.\<close>

definition is_leap :: "int \<Rightarrow> bool" where
  "is_leap year = (year mod 4 = 0 \<and> (year mod 100 \<noteq> 0 \<or> year mod 400 = 0))"

definition days_before_year :: "int \<Rightarrow> int" where
  "days_before_year year =
     (let y = year - 1 in y * 365 + y div 4 - y div 100 + y div 400)"

definition DAYS_BEFORE_MONTH :: "int list" where
  "DAYS_BEFORE_MONTH = [-1, 0, 31, 59, 90, 120, 151, 181, 212, 243, 273, 304, 334]"

definition days_before_month :: "int \<Rightarrow> nat \<Rightarrow> int" where
  "days_before_month year month =
     DAYS_BEFORE_MONTH ! month + (if month > 2 \<and> is_leap year then 1 else 0)"

definition ymd2ord :: "int \<Rightarrow> nat \<Rightarrow> int \<Rightarrow> int" where
  "ymd2ord year month day = days_before_year year + days_before_month year month + day"

text \<open>\<open>time(hour, minute)\<close> and \<open>datetime(year, month, day, hour, minute)\<close>.\<close>

definition mk_time :: "int \<Rightarrow> int \<Rightarrow> time" where
  "mk_time hour minute = (hour * 60 + minute) * US_PER_MIN"

definition mk_datetime :: "int \<Rightarrow> nat \<Rightarrow> int \<Rightarrow> int \<Rightarrow> int \<Rightarrow> datetime" where
  "mk_datetime year month day hour minute =
     ymd2ord year month day * US_PER_DAY + mk_time hour minute"

definition toordinal :: "datetime \<Rightarrow> int" where
  "toordinal ts = ts div US_PER_DAY"

text \<open>\<open>ts.weekday()\<close>: 0 is Monday, 6 is Sunday.\<close>

definition weekday :: "datetime \<Rightarrow> int" where
  "weekday ts = (toordinal ts + 6) mod 7"

text \<open>\<open>ts.time()\<close>.\<close>

definition time_of :: "datetime \<Rightarrow> time" where
  "time_of ts = ts mod US_PER_DAY"

section \<open>Constants and configuration\<close>

text \<open>
  The horizon and the step are module-level constants of the program. The generator reads
  them from a record, so that statements about other horizons can be made; \<open>CONFIG\<close>
  holds the values the program has.
\<close>

record config =
  START_DATE :: datetime
  END_DATE :: datetime
  TIME_FREQ_MIN :: int

definition CONFIG :: config where
  "CONFIG = \<lparr> START_DATE = mk_datetime 2025 11 1 0 0,
              END_DATE = mk_datetime 2025 11 15 23 45,
              TIME_FREQ_MIN = 15 \<rparr>"

definition TARIFF_PER_KWH :: real where
  "TARIFF_PER_KWH = 8"

definition CO2_PER_KWH_KG :: real where
  "CO2_PER_KWH_KG = 6 / 10"

definition FLOORS :: "(string \<times> (string \<times> string) list) list" where
  "FLOORS =
     [(''Floor 1'', [(''F1-101'', ''Computer Lab 1''),
                     (''F1-102'', ''Computer Lab 2''),
                     (''F1-103'', ''Faculty Room 1'')]),
      (''Floor 2'', [(''F2-201'', ''Classroom 201''),
                     (''F2-202'', ''Classroom 202''),
                     (''F2-203'', ''Seminar Room'')]),
      (''Floor 3'', [(''F3-301'', ''Classroom 301''),
                     (''F3-302'', ''Classroom 302''),
                     (''F3-303'', ''Conference Room'')])]"

definition WEEKDAY_SCHEDULE :: "(time \<times> time) list" where
  "WEEKDAY_SCHEDULE = [(mk_time 9 0, mk_time 12 0), (mk_time 13 0, mk_time 17 0)]"

section \<open>The schedule\<close>

text \<open>The loop of \<open>is_ac_on\<close> over the windows: the first window that holds the time returns.\<close>

fun in_schedule :: "time \<Rightarrow> (time \<times> time) list \<Rightarrow> bool" where
  "in_schedule t [] = False"
| "in_schedule t ((start_t, end_t) # ws) =
     (if start_t \<le> t \<and> t \<le> end_t then True else in_schedule t ws)"

definition is_ac_on :: "datetime \<Rightarrow> bool" where
  "is_ac_on ts =
     (if weekday ts \<ge> 5 then False
      else in_schedule (time_of ts) WEEKDAY_SCHEDULE)"

section \<open>Random numbers\<close>

text \<open>
  The program draws from numpy's global generator. The generator is modelled as explicit
  state: the sequence of standard uniform variates (in the interval from 0 to 1) and the
  sequence of standard normal variates it is going to deliver, with a position in each.
  \<open>np.random.uniform(low, high)\<close> is \<open>low + (high - low) * u\<close> for the next standard
  uniform variate \<open>u\<close>; \<open>np.random.normal(loc, scale, size=n)\<close> is \<open>loc + scale * z\<close>
  for each of the next \<open>n\<close> standard normal variates \<open>z\<close>. Numbers are reals: the
  rounding of floating point is not modelled.
\<close>

record rng =
  uniform_src :: "nat \<Rightarrow> real"
  normal_src :: "nat \<Rightarrow> real"
  uniform_pos :: nat
  normal_pos :: nat

definition random_uniform :: "real \<Rightarrow> real \<Rightarrow> rng \<Rightarrow> real \<times> rng" where
  "random_uniform low high g =
     (low + (high - low) * uniform_src g (uniform_pos g),
      g\<lparr>uniform_pos := Suc (uniform_pos g)\<rparr>)"

definition random_normal :: "real \<Rightarrow> real \<Rightarrow> nat \<Rightarrow> rng \<Rightarrow> real list \<times> rng" where
  "random_normal loc scale n g =
     (map (\<lambda>i. loc + scale * normal_src g (normal_pos g + i)) [0..<n],
      g\<lparr>normal_pos := normal_pos g + n\<rparr>)"

section \<open>Generating the data\<close>

datatype error = ZeroDivisionError | ValueError

text \<open>
  \<open>pd.date_range(start, end, freq=f"{n}min")\<close>: the points \<open>start + k * n\<close> minutes from
  \<open>start\<close> towards \<open>end\<close> that do not pass \<open>end\<close>. With a positive frequency and
  \<open>end < start\<close> the index is empty; a negative frequency counts down; pandas divides by
  the frequency, so a zero frequency raises.
\<close>

definition date_range :: "datetime \<Rightarrow> datetime \<Rightarrow> int \<Rightarrow> error + datetime list" where
  "date_range start end freq_min =
     (let stride = freq_min * US_PER_MIN in
      if stride = 0 then Inl ZeroDivisionError
      else Inr (map (\<lambda>k. start + int k * stride)
                  [0..<nat ((end - start) div stride + 1)]))"

text \<open>A row of the data frame. The column \<open>floor\<close> is the field \<open>floor_col\<close>.\<close>

record sample =
  timestamp :: datetime
  floor_col :: string
  room_id :: string
  room_name :: string
  voltage :: real
  current :: real
  power_kw :: real
  energy_kwh_step :: real
  is_on :: bool

type_synonym dataframe = "sample list"

text \<open>\<open>np.where(cond, a, b)\<close> on arrays of one length.\<close>

definition np_where :: "bool list \<Rightarrow> 'a list \<Rightarrow> 'a list \<Rightarrow> 'a list" where
  "np_where cond a b = map (\<lambda>(c, x, y). if c then x else y) (zip cond (zip a b))"

text \<open>\<open>np.clip(a, a_min, None)\<close>.\<close>

definition np_clip_min :: "real list \<Rightarrow> real \<Rightarrow> real list" where
  "np_clip_min a a_min = map (\<lambda>x. max x a_min) a"

text \<open>
  \<open>pd.DataFrame({...})\<close> of the columns of \<open>generate_room_data\<close>: row \<open>i\<close> holds entry
  \<open>i\<close> of every array column and the scalar of every scalar column.
\<close>

definition DataFrame ::
  "datetime list \<Rightarrow> string \<Rightarrow> string \<Rightarrow> string \<Rightarrow> real list \<Rightarrow> real list \<Rightarrow> real list
     \<Rightarrow> real list \<Rightarrow> bool list \<Rightarrow> dataframe" where
  "DataFrame idx fl rid rname vs cs ps es ons =
     map (\<lambda>i. \<lparr> timestamp = idx ! i, floor_col = fl, room_id = rid, room_name = rname,
                voltage = vs ! i, current = cs ! i, power_kw = ps ! i,
                energy_kwh_step = es ! i, is_on = ons ! i \<rparr>)
       [0..<length idx]"

text \<open>
  \<open>generate_room_data\<close>. The result is the frame or the exception raised, with the state of
  the generator afterwards.
\<close>

definition generate_room_data ::
  "config \<Rightarrow> string \<Rightarrow> string \<Rightarrow> string \<Rightarrow> rng \<Rightarrow> (error + dataframe) \<times> rng" where
  "generate_room_data cfg rid fl rname g =
     (case date_range (START_DATE cfg) (END_DATE cfg) (TIME_FREQ_MIN cfg) of
        Inl e \<Rightarrow> (Inl e, g)
      | Inr idx \<Rightarrow>
          (let n = length idx;
               ons = map is_ac_on idx;
               (base_current, g1) = random_uniform 7 10 g;
               (base_voltage, g2) = random_uniform 225 235 g1;
               (v_on, g3) = random_normal base_voltage 2 n g2;
               (v_off, g4) = random_normal (base_voltage - 2) 1 n g3;
               vs = np_where ons v_on v_off;
               (c_on, g5) = random_normal base_current (8 / 10) n g4;
               (c_off, g6) = random_normal (3 / 10) (1 / 10) n g5;
               cs = np_where ons c_on c_off;
               ps = np_clip_min (map2 (\<lambda>v c. (v * c) / 1000) vs cs) 0;
               step_hours = real_of_int (TIME_FREQ_MIN cfg) / 60;
               es = map (\<lambda>p. p * step_hours) ps
           in (Inr (DataFrame idx fl rid rname vs cs ps es ons), g6)))"

text \<open>
  \<open>load_data\<close> without its decorator. The inner loop runs over the rooms of a floor, the
  outer one over \<open>FLOORS.items()\<close>; an exception of \<open>generate_room_data\<close> ends both.
  \<open>pd.concat\<close> raises on an empty list of frames.
\<close>

fun load_rooms ::
  "config \<Rightarrow> string \<Rightarrow> (string \<times> string) list \<Rightarrow> dataframe list \<Rightarrow> rng
     \<Rightarrow> (error + dataframe list) \<times> rng" where
  "load_rooms cfg fl [] frames g = (Inr frames, g)"
| "load_rooms cfg fl ((rid, rname) # rooms) frames g =
     (case generate_room_data cfg rid fl rname g of
        (Inl e, g') \<Rightarrow> (Inl e, g')
      | (Inr df, g') \<Rightarrow> load_rooms cfg fl rooms (frames @ [df]) g')"

fun load_floors ::
  "config \<Rightarrow> (string \<times> (string \<times> string) list) list \<Rightarrow> dataframe list \<Rightarrow> rng
     \<Rightarrow> (error + dataframe list) \<times> rng" where
  "load_floors cfg [] frames g = (Inr frames, g)"
| "load_floors cfg ((fl, rooms) # floors) frames g =
     (case load_rooms cfg fl rooms frames g of
        (Inl e, g') \<Rightarrow> (Inl e, g')
      | (Inr frames', g') \<Rightarrow> load_floors cfg floors frames' g')"

definition pd_concat :: "dataframe list \<Rightarrow> error + dataframe" where
  "pd_concat frames = (if frames = [] then Inl ValueError else Inr (concat frames))"

definition load_data_body :: "config \<Rightarrow> rng \<Rightarrow> (error + dataframe) \<times> rng" where
  "load_data_body cfg g =
     (case load_floors cfg FLOORS [] g of
        (Inl e, g') \<Rightarrow> (Inl e, g')
      | (Inr frames, g') \<Rightarrow> (pd_concat frames, g'))"

text \<open>
  \<open>@st.cache_data\<close> on a function without arguments: the first call that returns stores
  the value, later calls return the stored value and do not run the body. The cache is the
  stored value, if any; a call that raises stores nothing.
\<close>

definition load_data ::
  "config \<Rightarrow> dataframe option \<Rightarrow> rng \<Rightarrow> (error + dataframe) \<times> dataframe option \<times> rng" where
  "load_data cfg cache g =
     (case cache of
        Some df \<Rightarrow> (Inr df, cache, g)
      | None \<Rightarrow>
          (case load_data_body cfg g of
             (Inl e, g') \<Rightarrow> (Inl e, None, g')
           | (Inr df, g') \<Rightarrow> (Inr df, Some df, g')))"

section \<open>Filtering and aggregation\<close>

text \<open>
  \<open>filter_by_range\<close>: two comparisons of the timestamp column with a scalar, the
  elementwise \<open>&\<close> of the two masks, and the selection of the rows where the mask holds.
\<close>

definition mask_ge :: "datetime list \<Rightarrow> datetime \<Rightarrow> bool list" where
  "mask_ge col x = map (\<lambda>t. t \<ge> x) col"

definition mask_le :: "datetime list \<Rightarrow> datetime \<Rightarrow> bool list" where
  "mask_le col x = map (\<lambda>t. t \<le> x) col"

definition mask_and :: "bool list \<Rightarrow> bool list \<Rightarrow> bool list" where
  "mask_and a b = map2 (\<and>) a b"

definition select_rows :: "dataframe \<Rightarrow> bool list \<Rightarrow> dataframe" where
  "select_rows df sel = map fst (filter snd (zip df sel))"

definition filter_by_range :: "dataframe \<Rightarrow> datetime \<Rightarrow> datetime \<Rightarrow> dataframe" where
  "filter_by_range df start_dt end_dt =
     select_rows df
       (mask_and (mask_ge (map timestamp df) start_dt) (mask_le (map timestamp df) end_dt))"

text \<open>\<open>aggregate_energy\<close>: the sum of a column, and the two metrics derived from it.\<close>

definition aggregate_energy :: "dataframe \<Rightarrow> real \<times> real \<times> real" where
  "aggregate_energy df =
     (let total_energy = sum_list (map energy_kwh_step df);
          total_cost = total_energy * TARIFF_PER_KWH;
          total_co2_kg = total_energy * CO2_PER_KWH_KG
      in (total_energy, total_cost, total_co2_kg))"

section \<open>The main program\<close>

text \<open>
  \<open>main\<close> from the result of \<open>sidebar_controls\<close> on: it stops when the end is not after
  the start, filters, stops when the range holds no row, and otherwise shows the selected
  view on the rows of the range.
\<close>

datatype view_mode = Building_Overview | Floor_View | Room_View | Manage_Devices

datatype outcome = Stopped_range | Stopped_no_data | Shown view_mode dataframe

definition main :: "dataframe \<Rightarrow> view_mode \<Rightarrow> datetime \<Rightarrow> datetime \<Rightarrow> outcome" where
  "main df view start_dt end_dt =
     (if end_dt \<le> start_dt then Stopped_range
      else (let df_range = filter_by_range df start_dt end_dt
            in if df_range = [] then Stopped_no_data else Shown view df_range))"

text \<open>
  The units in the order in which \<open>load_data\<close> visits them: floor, room id, room name.
\<close>

definition units_of ::
  "(string \<times> (string \<times> string) list) list \<Rightarrow> (string \<times> string \<times> string) list" where
  "units_of floors = concat (map (\<lambda>(fl, rooms). map (Pair fl) rooms) floors)"

section \<open>Concrete inputs\<close>

text \<open>
  A generator state whose uniform variates are all 1/2 and whose normal variates are all 0:
  the baselines it gives are 8.5 A and 230 V.
\<close>

definition rng0 :: rng where
  "rng0 = \<lparr> uniform_src = (\<lambda>k. 1 / 2), normal_src = (\<lambda>k. 0),
            uniform_pos = 0, normal_pos = 0 \<rparr>"

text \<open>A horizon of the single point 1 November 2025 00:00, with the step of 15 minutes.\<close>

definition POINT :: config where
  "POINT = \<lparr> START_DATE = mk_datetime 2025 11 1 0 0,
             END_DATE = mk_datetime 2025 11 1 0 0,
             TIME_FREQ_MIN = 15 \<rparr>"

text \<open>
  A generator state whose variates differ: the first two uniform variates are 1/3 and 1/2,
  which give the baselines 8 A and 230 V, every later one is 9/10; normal variate \<open>k\<close> is
  \<open>k / 10\<close>.
\<close>

definition rng1 :: rng where
  "rng1 = \<lparr> uniform_src = (\<lambda>k. if k = 0 then 1 / 3 else if k = 1 then 1 / 2 else 9 / 10),
            normal_src = (\<lambda>k. real k / 10),
            uniform_pos = 0, normal_pos = 0 \<rparr>"

text \<open>Monday 3 November 2025 from 08:45 to 09:15: one point before the first window, two in it.\<close>

definition MORNING :: config where
  "MORNING = \<lparr> START_DATE = mk_datetime 2025 11 3 8 45,
               END_DATE = mk_datetime 2025 11 3 9 15,
               TIME_FREQ_MIN = 15 \<rparr>"

text \<open>A row with a given timestamp, room and energy, for concrete examples.\<close>

definition row_at :: "datetime \<Rightarrow> string \<Rightarrow> string \<Rightarrow> real \<Rightarrow> sample" where
  "row_at ts fl rid e =
     \<lparr> timestamp = ts, floor_col = fl, room_id = rid, room_name = ''Room'',
       voltage = 230, current = 8, power_kw = 4 * e, energy_kwh_step = e, is_on = True \<rparr>"

section \<open>Properties of the schedule\<close>

lemmas calendar_defs = mk_datetime_def ymd2ord_def days_before_year_def days_before_month_def
  DAYS_BEFORE_MONTH_def is_leap_def mk_time_def US_PER_DAY_def US_PER_MIN_def US_PER_SEC_def
  weekday_def toordinal_def time_of_def

lemma in_schedule_iff:
  "in_schedule t ws \<longleftrightarrow> (\<exists>(start_t, end_t) \<in> set ws. start_t \<le> t \<and> t \<le> end_t)"
  by (induction t ws rule: in_schedule.induct) auto

lemma weekday_range: "0 \<le> weekday ts \<and> weekday ts \<le> 6"
  by (simp add: weekday_def)

text \<open>
  C3. \<open>is_ac_on\<close> is false on a weekday outside Monday to Friday (so on every Saturday and
  Sunday); on Monday to Friday it is true exactly when the time of day lies in one of the
  windows of \<open>WEEKDAY_SCHEDULE\<close>, both bounds included: at exactly 09:00:00 and at exactly
  12:00:00 of such a day it is true.
\<close>

theorem is_ac_on_schedule:
  "(is_ac_on ts \<longleftrightarrow>
      weekday ts \<in> {0, 1, 2, 3, 4} \<and>
      (\<exists>(start_t, end_t) \<in> set WEEKDAY_SCHEDULE. start_t \<le> time_of ts \<and> time_of ts \<le> end_t))
   \<and> (weekday ts \<in> {5, 6} \<longrightarrow> \<not> is_ac_on ts)
   \<and> (weekday ts \<in> {0, 1, 2, 3, 4} \<and> time_of ts \<in> {mk_time 9 0, mk_time 12 0}
        \<longrightarrow> is_ac_on ts)"
proof -
  have r: "0 \<le> weekday ts \<and> weekday ts \<le> 6"
    by (rule weekday_range)
  have a: "weekday ts \<in> {0, 1, 2, 3, 4} \<longleftrightarrow> \<not> weekday ts \<ge> 5"
    using r by auto
  have main: "is_ac_on ts \<longleftrightarrow>
      weekday ts \<in> {0, 1, 2, 3, 4} \<and>
      (\<exists>(start_t, end_t) \<in> set WEEKDAY_SCHEDULE. start_t \<le> time_of ts \<and> time_of ts \<le> end_t)"
    unfolding a by (simp add: is_ac_on_def in_schedule_iff)
  have weekend: "weekday ts \<in> {5, 6} \<longrightarrow> \<not> is_ac_on ts"
    by (auto simp: is_ac_on_def)
  have bounds: "weekday ts \<in> {0, 1, 2, 3, 4} \<and> time_of ts \<in> {mk_time 9 0, mk_time 12 0}
      \<longrightarrow> is_ac_on ts"
    unfolding main
    by (auto simp: WEEKDAY_SCHEDULE_def mk_time_def US_PER_MIN_def US_PER_SEC_def)
  from main weekend bounds show ?thesis by blast
qed

text \<open>
  Monday 3 November 2025 at 09:00 and at 12:00 is on, at 12:01 it is off; Saturday
  1 November 2025 at 10:00 is off.
\<close>

theorem is_ac_on_schedule_witness:
  "is_ac_on (mk_datetime 2025 11 3 9 0) \<and> is_ac_on (mk_datetime 2025 11 3 12 0)
   \<and> \<not> is_ac_on (mk_datetime 2025 11 3 12 1)
   \<and> \<not> is_ac_on (mk_datetime 2025 11 1 10 0)"
  using is_ac_on_schedule [of "mk_datetime 2025 11 3 9 0"]
    is_ac_on_schedule [of "mk_datetime 2025 11 3 12 0"]
    is_ac_on_schedule [of "mk_datetime 2025 11 3 12 1"]
    is_ac_on_schedule [of "mk_datetime 2025 11 1 10 0"]
  by (simp add: calendar_defs WEEKDAY_SCHEDULE_def)

section \<open>Properties of the range filter\<close>

lemma select_rows_map: "select_rows df (map p df) = filter p df"
  unfolding select_rows_def by (induction df) auto

lemma filter_by_range_filter:
  "filter_by_range df start_dt end_dt =
     filter (\<lambda>r. start_dt \<le> timestamp r \<and> timestamp r \<le> end_dt) df"
proof -
  have "mask_and (mask_ge (map timestamp df) start_dt) (mask_le (map timestamp df) end_dt)
      = map (\<lambda>r. start_dt \<le> timestamp r \<and> timestamp r \<le> end_dt) df"
    unfolding mask_and_def mask_ge_def mask_le_def by (induction df) auto
  then show ?thesis
    unfolding filter_by_range_def by (simp add: select_rows_map)
qed

text \<open>
  C7. For \<open>start_dt \<le> end_dt\<close>, \<open>filter_by_range\<close> returns exactly the rows whose
  timestamp lies between \<open>start_dt\<close> and \<open>end_dt\<close>, both included, in their order: a row
  at \<open>end_dt\<close> is in the result, a row one positive step after \<open>end_dt\<close> is not, and when
  no row lies in the range the result is the empty frame.
\<close>

theorem filter_by_range_inclusive:
  assumes "start_dt \<le> end_dt"
  shows "filter_by_range df start_dt end_dt =
           filter (\<lambda>r. start_dt \<le> timestamp r \<and> timestamp r \<le> end_dt) df
       \<and> (\<forall>r \<in> set df. timestamp r = end_dt
             \<longrightarrow> r \<in> set (filter_by_range df start_dt end_dt))
       \<and> (\<forall>r \<in> set df. \<forall>step > 0. timestamp r = end_dt + step
             \<longrightarrow> r \<notin> set (filter_by_range df start_dt end_dt))
       \<and> ((\<forall>r \<in> set df. timestamp r < start_dt \<or> end_dt < timestamp r)
             \<longrightarrow> filter_by_range df start_dt end_dt = [])"
proof -
  have incl: "\<forall>r \<in> set df. timestamp r = end_dt
      \<longrightarrow> r \<in> set (filter_by_range df start_dt end_dt)"
    using assms by (simp add: filter_by_range_filter)
  have excl: "\<forall>r \<in> set df. \<forall>step > 0. timestamp r = end_dt + step
      \<longrightarrow> r \<notin> set (filter_by_range df start_dt end_dt)"
    by (simp add: filter_by_range_filter)
  have empty: "(\<forall>r \<in> set df. timestamp r < start_dt \<or> end_dt < timestamp r)
      \<longrightarrow> filter_by_range df start_dt end_dt = []"
    by (auto simp: filter_by_range_filter filter_empty_conv)
  from incl excl empty show ?thesis
    by (simp only: filter_by_range_filter simp_thms)
qed

text \<open>
  Rows at 08:45, 09:00 and 09:15 of 3 November 2025, range 08:50 to 09:00: the row at the
  end of the range is kept, the one a step later is not.
\<close>

theorem filter_by_range_inclusive_witness:
  "mk_datetime 2025 11 3 8 50 \<le> mk_datetime 2025 11 3 9 0
   \<and> filter_by_range
        [row_at (mk_datetime 2025 11 3 8 45) ''Floor 1'' ''F1-101'' 1,
         row_at (mk_datetime 2025 11 3 9 0) ''Floor 1'' ''F1-101'' 2,
         row_at (mk_datetime 2025 11 3 9 15) ''Floor 1'' ''F1-101'' 3]
        (mk_datetime 2025 11 3 8 50) (mk_datetime 2025 11 3 9 0)
      = [row_at (mk_datetime 2025 11 3 9 0) ''Floor 1'' ''F1-101'' 2]"
proof -
  have h: "mk_datetime 2025 11 3 8 50 \<le> mk_datetime 2025 11 3 9 0"
    by (simp add: calendar_defs)
  show ?thesis
    using h filter_by_range_inclusive [OF h, of
        "[row_at (mk_datetime 2025 11 3 8 45) ''Floor 1'' ''F1-101'' 1,
          row_at (mk_datetime 2025 11 3 9 0) ''Floor 1'' ''F1-101'' 2,
          row_at (mk_datetime 2025 11 3 9 15) ''Floor 1'' ''F1-101'' 3]"]
    by (simp add: row_at_def calendar_defs)
qed

text \<open>
  C2, as the specification states it: a call with \<open>end < start\<close> fails with an error. It
  does not: \<open>filter_by_range\<close> has no check and no \<open>raise\<close>, and returns the empty frame.
  Here the range runs from 4 November 2025 back to 3 November 2025.
\<close>

theorem filter_by_range_reversed_counterexample:
  "filter_by_range [row_at (mk_datetime 2025 11 3 9 0) ''Floor 1'' ''F1-101'' 1]
     (mk_datetime 2025 11 4 0 0) (mk_datetime 2025 11 3 0 0) = []"
  by (simp add: filter_by_range_filter row_at_def calendar_defs)

text \<open>
  C2, amended. \<open>filter_by_range\<close> with \<open>end_dt < start_dt\<close> returns the empty frame,
  whatever the data. The guard is in \<open>main\<close>: when \<open>end_dt \<le> start_dt\<close> (equal bounds
  too) it stops before it filters, whatever the data and the view.
\<close>

theorem reversed_range_guarded_in_main:
  "(end_dt < start_dt \<longrightarrow> filter_by_range df start_dt end_dt = [])
   \<and> (end_dt \<le> start_dt \<longrightarrow> main df view start_dt end_dt = Stopped_range)"
  by (auto simp: filter_by_range_filter filter_empty_conv main_def)

theorem reversed_range_guarded_in_main_witness:
  "mk_datetime 2025 11 3 0 0 < mk_datetime 2025 11 4 0 0
   \<and> filter_by_range [row_at (mk_datetime 2025 11 3 9 0) ''Floor 2'' ''F2-201'' 1]
        (mk_datetime 2025 11 4 0 0) (mk_datetime 2025 11 3 0 0) = []
   \<and> main [row_at (mk_datetime 2025 11 3 9 0) ''Floor 2'' ''F2-201'' 1] Floor_View
        (mk_datetime 2025 11 4 0 0) (mk_datetime 2025 11 3 0 0) = Stopped_range"
proof -
  have h: "mk_datetime 2025 11 3 0 0 < mk_datetime 2025 11 4 0 0"
    by (simp add: calendar_defs)
  show ?thesis
    using h reversed_range_guarded_in_main [of "mk_datetime 2025 11 3 0 0"
        "mk_datetime 2025 11 4 0 0"
        "[row_at (mk_datetime 2025 11 3 9 0) ''Floor 2'' ''F2-201'' 1]" Floor_View]
    by simp
qed

section \<open>Properties of the aggregation\<close>

text \<open>
  C10. On the empty frame \<open>aggregate_energy\<close> returns energy 0, cost 0 and emissions 0.
\<close>

theorem aggregate_energy_empty:
  "aggregate_energy [] = (0, 0, 0)"
  by (simp add: aggregate_energy_def)

section \<open>Properties of the generator\<close>

lemma US_PER_MIN_pos: "0 < US_PER_MIN"
  by (simp add: US_PER_MIN_def US_PER_SEC_def)

lemma date_range_Inr:
  "freq_min \<noteq> 0 \<Longrightarrow>
   date_range start end freq_min =
     Inr (map (\<lambda>k. start + int k * (freq_min * US_PER_MIN))
            [0..<nat ((end - start) div (freq_min * US_PER_MIN) + 1)])"
  using US_PER_MIN_pos by (simp add: date_range_def Let_def)

lemma date_range_zero: "date_range start end 0 = Inl ZeroDivisionError"
  by (simp add: date_range_def)

lemma date_range_reversed:
  assumes "0 < freq_min" and "end < start"
  shows "date_range start end freq_min = Inr []"
proof -
  have "0 < freq_min * US_PER_MIN"
    using assms(1) US_PER_MIN_pos by simp
  then have "(end - start) div (freq_min * US_PER_MIN) < 0"
    using assms(2) by (simp add: pos_imp_zdiv_neg_iff)
  then show ?thesis
    using assms(1) by (simp add: date_range_Inr)
qed

lemma length_np_where:
  "length a = length c \<Longrightarrow> length b = length c \<Longrightarrow> length (np_where c a b) = length c"
  by (simp add: np_where_def)

lemma nth_np_where:
  "length a = length c \<Longrightarrow> length b = length c \<Longrightarrow> i < length c \<Longrightarrow>
   np_where c a b ! i = (if c ! i then a ! i else b ! i)"
  by (simp add: np_where_def)

lemma length_random_normal: "length (fst (random_normal loc scale n g)) = n"
  by (simp add: random_normal_def)

lemma nth_random_normal:
  "i < n \<Longrightarrow> fst (random_normal loc scale n g) ! i = loc + scale * normal_src g (normal_pos g + i)"
  by (simp add: random_normal_def)

text \<open>The rows of a generated frame in closed form.\<close>

lemma generate_room_data_rows:
  fixes g :: rng and cfg :: config and idx :: "datetime list"
  assumes idx: "date_range (START_DATE cfg) (END_DATE cfg) (TIME_FREQ_MIN cfg) = Inr idx"
  defines "n \<equiv> length idx"
  defines "bc \<equiv> 7 + (10 - 7) * uniform_src g (uniform_pos g)"
  defines "bv \<equiv> 225 + (235 - 225) * uniform_src g (Suc (uniform_pos g))"
  defines "v \<equiv> \<lambda>i. if is_ac_on (idx ! i) then bv + 2 * normal_src g (normal_pos g + i)
                    else bv - 2 + 1 * normal_src g (normal_pos g + n + i)"
  defines "c \<equiv> \<lambda>i. if is_ac_on (idx ! i)
                    then bc + (8 / 10) * normal_src g (normal_pos g + n + n + i)
                    else 3 / 10 + (1 / 10) * normal_src g (normal_pos g + n + n + n + i)"
  shows "generate_room_data cfg rid fl rname g =
     (Inr (map (\<lambda>i. \<lparr> timestamp = idx ! i, floor_col = fl, room_id = rid, room_name = rname,
                voltage = v i, current = c i, power_kw = max (v i * c i / 1000) 0,
                energy_kwh_step = max (v i * c i / 1000) 0 * (real_of_int (TIME_FREQ_MIN cfg) / 60),
                is_on = is_ac_on (idx ! i) \<rparr>) [0..<n]),
      g\<lparr>uniform_pos := Suc (Suc (uniform_pos g)), normal_pos := normal_pos g + n + n + n + n\<rparr>)"
proof -
  let ?von = "map (\<lambda>i. bv + 2 * normal_src g (normal_pos g + i)) [0..<n]"
  let ?voff = "map (\<lambda>i. bv - 2 + 1 * normal_src g (normal_pos g + n + i)) [0..<n]"
  let ?con = "map (\<lambda>i. bc + (8 / 10) * normal_src g (normal_pos g + n + n + i)) [0..<n]"
  let ?coff = "map (\<lambda>i. 3 / 10 + (1 / 10) * normal_src g (normal_pos g + n + n + n + i)) [0..<n]"
  let ?ons = "map is_ac_on idx"
  let ?vs = "np_where ?ons ?von ?voff"
  let ?cs = "np_where ?ons ?con ?coff"
  let ?ps = "np_clip_min (map2 (\<lambda>v c. (v * c) / 1000) ?vs ?cs) 0"
  let ?es = "map (\<lambda>p. p * (real_of_int (TIME_FREQ_MIN cfg) / 60)) ?ps"
  have unfolded: "generate_room_data cfg rid fl rname g =
      (Inr (DataFrame idx fl rid rname ?vs ?cs ?ps ?es ?ons),
       g\<lparr>uniform_pos := Suc (Suc (uniform_pos g)), normal_pos := normal_pos g + n + n + n + n\<rparr>)"
    unfolding generate_room_data_def idx
    by (simp add: Let_def random_uniform_def random_normal_def n_def bc_def bv_def)
  have lv: "length ?vs = n" and lc: "length ?cs = n"
    by (simp_all add: length_np_where n_def)
  have nv: "?vs ! i = v i" if "i < n" for i
    using that by (simp add: nth_np_where n_def v_def)
  have nc: "?cs ! i = c i" if "i < n" for i
    using that by (simp add: nth_np_where n_def c_def)
  have np: "?ps ! i = max (v i * c i / 1000) 0" if "i < n" for i
    using that lv lc nv nc unfolding np_clip_min_def by simp
  have lp: "length ?ps = n"
    using lv lc by (simp add: np_clip_min_def)
  have ne: "?es ! i = max (v i * c i / 1000) 0 * (real_of_int (TIME_FREQ_MIN cfg) / 60)"
    if "i < n" for i
    using that lp np by simp
  have "DataFrame idx fl rid rname ?vs ?cs ?ps ?es ?ons =
      map (\<lambda>i. \<lparr> timestamp = idx ! i, floor_col = fl, room_id = rid, room_name = rname,
                voltage = v i, current = c i, power_kw = max (v i * c i / 1000) 0,
                energy_kwh_step = max (v i * c i / 1000) 0 * (real_of_int (TIME_FREQ_MIN cfg) / 60),
                is_on = is_ac_on (idx ! i) \<rparr>) [0..<n]"
    unfolding DataFrame_def n_def [symmetric]
    apply (rule map_cong [OF refl])
    using nv nc np ne apply (simp add: n_def)
    done
  with unfolded show ?thesis by simp
qed

lemma generate_room_data_Inr:
  assumes "generate_room_data cfg rid fl rname g = (Inr df, g')"
  shows "\<exists>idx. date_range (START_DATE cfg) (END_DATE cfg) (TIME_FREQ_MIN cfg) = Inr idx"
  using assms unfolding generate_room_data_def
  by (cases "date_range (START_DATE cfg) (END_DATE cfg) (TIME_FREQ_MIN cfg)") auto

lemma generate_room_data_Inl:
  assumes "date_range (START_DATE cfg) (END_DATE cfg) (TIME_FREQ_MIN cfg) = Inl e"
  shows "generate_room_data cfg rid fl rname g = (Inl e, g)"
  using assms unfolding generate_room_data_def by simp

lemma load_rooms_frames:
  assumes idx: "date_range (START_DATE cfg) (END_DATE cfg) (TIME_FREQ_MIN cfg) = Inr idx"
  shows "\<exists>fs g'. load_rooms cfg fl rooms frames g = (Inr (frames @ fs), g')
           \<and> list_all2 (\<lambda>(rid, rname) f. \<exists>g1 g2. generate_room_data cfg rid fl rname g1 = (Inr f, g2))
                rooms fs"
proof (induction rooms arbitrary: frames g)
  case Nil
  then show ?case by simp
next
  case (Cons room rooms)
  obtain rid rname where room: "room = (rid, rname)" by (cases room)
  obtain df g1 where gen: "generate_room_data cfg rid fl rname g = (Inr df, g1)"
    using generate_room_data_rows [OF idx] by blast
  obtain fs g' where rest: "load_rooms cfg fl rooms ((frames @ [df])) g1 = (Inr ((frames @ [df]) @ fs), g')"
    and all: "list_all2 (\<lambda>(rid, rname) f. \<exists>g1 g2. generate_room_data cfg rid fl rname g1 = (Inr f, g2)) rooms fs"
    using Cons.IH by blast
  have "load_rooms cfg fl (room # rooms) frames g = (Inr (frames @ (df # fs)), g')"
    using gen rest by (simp add: room)
  moreover have "list_all2 (\<lambda>(rid, rname) f. \<exists>g1 g2. generate_room_data cfg rid fl rname g1 = (Inr f, g2))
      (room # rooms) (df # fs)"
    using all gen by (auto simp: room)
  ultimately show ?case by blast
qed

lemma load_floors_frames:
  assumes idx: "date_range (START_DATE cfg) (END_DATE cfg) (TIME_FREQ_MIN cfg) = Inr idx"
  shows "\<exists>fs g'. load_floors cfg floors frames g = (Inr (frames @ fs), g')
           \<and> list_all2 (\<lambda>(fl, rid, rname) f. \<exists>g1 g2. generate_room_data cfg rid fl rname g1 = (Inr f, g2))
                (units_of floors) fs"
proof (induction floors arbitrary: frames g)
  case Nil
  then show ?case by (simp add: units_of_def)
next
  case (Cons floor floors)
  obtain fl rooms where floor: "floor = (fl, rooms)" by (cases floor)
  obtain fs1 g1 where r1: "load_rooms cfg fl rooms frames g = (Inr (frames @ fs1), g1)"
    and a1: "list_all2 (\<lambda>(rid, rname) f. \<exists>g1 g2. generate_room_data cfg rid fl rname g1 = (Inr f, g2)) rooms fs1"
    using load_rooms_frames [OF idx] by blast
  obtain fs2 g2 where r2: "load_floors cfg floors (frames @ fs1) g1 = (Inr ((frames @ fs1) @ fs2), g2)"
    and a2: "list_all2 (\<lambda>(fl, rid, rname) f. \<exists>g1 g2. generate_room_data cfg rid fl rname g1 = (Inr f, g2))
                (units_of floors) fs2"
    using Cons.IH by blast
  have a1': "list_all2 (\<lambda>(fl, rid, rname) f. \<exists>g1 g2. generate_room_data cfg rid fl rname g1 = (Inr f, g2))
      (map (Pair fl) rooms) fs1"
    using a1 by (simp add: list_all2_map1 split_def)
  have "load_floors cfg (floor # floors) frames g = (Inr (frames @ (fs1 @ fs2)), g2)"
    using r1 r2 by (simp add: floor)
  moreover have "list_all2 (\<lambda>(fl, rid, rname) f. \<exists>g1 g2. generate_room_data cfg rid fl rname g1 = (Inr f, g2))
      (units_of (floor # floors)) (fs1 @ fs2)"
    using a1' a2 by (simp add: units_of_def floor list_all2_appendI)
  ultimately show ?case by blast
qed

lemma load_data_body_frames:
  assumes idx: "date_range (START_DATE cfg) (END_DATE cfg) (TIME_FREQ_MIN cfg) = Inr idx"
  shows "\<exists>fs g'. load_data_body cfg g = (Inr (concat fs), g')
           \<and> list_all2 (\<lambda>(fl, rid, rname) f. \<exists>g1 g2. generate_room_data cfg rid fl rname g1 = (Inr f, g2))
                (units_of FLOORS) fs"
proof -
  obtain fs g' where r: "load_floors cfg FLOORS [] g = (Inr ([] @ fs), g')"
    and a: "list_all2 (\<lambda>(fl, rid, rname) f. \<exists>g1 g2. generate_room_data cfg rid fl rname g1 = (Inr f, g2))
                (units_of FLOORS) fs"
    using load_floors_frames [OF idx] by blast
  have "length fs = length (units_of FLOORS)"
    using a by (simp add: list_all2_lengthD)
  then have "fs \<noteq> []"
    by (auto simp: units_of_def FLOORS_def)
  then have "load_data_body cfg g = (Inr (concat fs), g')"
    using r by (simp add: load_data_body_def pd_concat_def)
  with a show ?thesis by blast
qed

lemma load_data_body_Inl:
  assumes "date_range (START_DATE cfg) (END_DATE cfg) (TIME_FREQ_MIN cfg) = Inl e"
  shows "load_data_body cfg g = (Inl e, g)"
  by (simp add: load_data_body_def FLOORS_def generate_room_data_Inl [OF assms])

lemma load_data_body_Inr:
  assumes "load_data_body cfg g = (Inr df, g')"
  shows "\<exists>idx. date_range (START_DATE cfg) (END_DATE cfg) (TIME_FREQ_MIN cfg) = Inr idx"
proof (cases "date_range (START_DATE cfg) (END_DATE cfg) (TIME_FREQ_MIN cfg)")
  case (Inl e)
  then show ?thesis using load_data_body_Inl [OF Inl, of g] assms by simp
next
  case (Inr idx)
  then show ?thesis by blast
qed

lemma load_data_body_rows:
  assumes body: "load_data_body cfg g = (Inr df, g')" and r: "r \<in> set df"
  shows "\<exists>rid fl rname g1 g2 f. generate_room_data cfg rid fl rname g1 = (Inr f, g2) \<and> r \<in> set f"
proof -
  obtain idx where idx: "date_range (START_DATE cfg) (END_DATE cfg) (TIME_FREQ_MIN cfg) = Inr idx"
    using load_data_body_Inr [OF body] by blast
  obtain fs where df: "df = concat fs"
    and a: "list_all2 (\<lambda>(fl, rid, rname) f. \<exists>g1 g2. generate_room_data cfg rid fl rname g1 = (Inr f, g2))
                (units_of FLOORS) fs"
    using load_data_body_frames [OF idx, of g] body by auto
  obtain f where f: "f \<in> set fs" "r \<in> set f"
    using r df by auto
  then obtain i where i: "i < length fs" "f = fs ! i"
    by (auto simp: in_set_conv_nth)
  then obtain rid' fl' rname' g1 g2 where "generate_room_data cfg rid' fl' rname' g1 = (Inr f, g2)"
    using list_all2_nthD2 [OF a, of i] by (auto simp: split_def)
  with f(2) show ?thesis by blast
qed

lemma load_data_body_empty:
  assumes idx: "date_range (START_DATE cfg) (END_DATE cfg) (TIME_FREQ_MIN cfg) = Inr []"
  shows "fst (load_data_body cfg g) = Inr []"
proof -
  obtain fs g' where body: "load_data_body cfg g = (Inr (concat fs), g')"
    and a: "list_all2 (\<lambda>(fl, rid, rname) f. \<exists>g1 g2. generate_room_data cfg rid fl rname g1 = (Inr f, g2))
                (units_of FLOORS) fs"
    using load_data_body_frames [OF idx] by blast
  have "f = []" if mem: "f \<in> set fs" for f
  proof -
    obtain i where i: "i < length fs" "f = fs ! i"
      using mem by (auto simp: in_set_conv_nth)
    then obtain rid' fl' rname' g1 g2 where "generate_room_data cfg rid' fl' rname' g1 = (Inr f, g2)"
      using list_all2_nthD2 [OF a, of i] by (auto simp: split_def)
    then show ?thesis
      using generate_room_data_rows [OF idx, of rid' fl' rname' g1] by simp
  qed
  then have "concat fs = []" by simp
  then show ?thesis using body by simp
qed

lemma POINT_index:
  "date_range (START_DATE POINT) (END_DATE POINT) (TIME_FREQ_MIN POINT) = Inr [mk_datetime 2025 11 1 0 0]"
  by (simp add: POINT_def date_range_def US_PER_MIN_def US_PER_SEC_def)

lemma not_on: "\<not> is_ac_on (mk_datetime 2025 11 1 0 0)"
  by (simp add: is_ac_on_def calendar_defs)

lemma POINT_room:
  "generate_room_data POINT ''F1-101'' ''Floor 1'' ''Computer Lab 1'' rng0 =
     (Inr [\<lparr> timestamp = mk_datetime 2025 11 1 0 0, floor_col = ''Floor 1'', room_id = ''F1-101'',
             room_name = ''Computer Lab 1'', voltage = 228, current = 3 / 10,
             power_kw = 684 / 10000, energy_kwh_step = 171 / 10000, is_on = False \<rparr>],
      rng0\<lparr>uniform_pos := 2, normal_pos := 4\<rparr>)"
  unfolding generate_room_data_def POINT_index
  by (simp add: not_on rng0_def random_uniform_def random_normal_def np_where_def
      np_clip_min_def DataFrame_def POINT_def)

lemma generate_room_data_power:
  assumes "generate_room_data cfg rid fl rname g = (Inr df, g')" and "r \<in> set df"
  shows "power_kw r = max 0 (voltage r * current r / 1000) \<and> 0 \<le> power_kw r \<and>
     energy_kwh_step r = power_kw r * (real_of_int (TIME_FREQ_MIN cfg) / 60)"
proof -
  obtain idx where idx: "date_range (START_DATE cfg) (END_DATE cfg) (TIME_FREQ_MIN cfg) = Inr idx"
    using generate_room_data_Inr [OF assms(1)] by blast
  show ?thesis
    using assms generate_room_data_rows [OF idx, of rid fl rname g]
    by (auto simp: max.commute)
qed

text \<open>
  C5. In every frame that \<open>generate_room_data\<close> returns, and so in every data set that
  \<open>load_data\<close> builds, each row has \<open>power_kw = max 0 (voltage * current / 1000)\<close>, which
  is never negative, and \<open>energy_kwh_step = power_kw * (TIME_FREQ_MIN / 60)\<close>.
\<close>

theorem power_clamped_energy_per_step:
  "(generate_room_data cfg rid fl rname g = (Inr df, g') \<longrightarrow>
      (\<forall>r \<in> set df. power_kw r = max 0 (voltage r * current r / 1000) \<and> 0 \<le> power_kw r \<and>
         energy_kwh_step r = power_kw r * (real_of_int (TIME_FREQ_MIN cfg) / 60)))
   \<and> (load_data_body cfg g = (Inr df, g') \<longrightarrow>
      (\<forall>r \<in> set df. power_kw r = max 0 (voltage r * current r / 1000) \<and> 0 \<le> power_kw r \<and>
         energy_kwh_step r = power_kw r * (real_of_int (TIME_FREQ_MIN cfg) / 60)))"
proof -
  have room: "\<forall>r \<in> set df. power_kw r = max 0 (voltage r * current r / 1000) \<and> 0 \<le> power_kw r \<and>
         energy_kwh_step r = power_kw r * (real_of_int (TIME_FREQ_MIN cfg) / 60)"
    if "generate_room_data cfg rid fl rname g = (Inr df, g')"
    using that generate_room_data_power by blast
  have all: "\<forall>r \<in> set df. power_kw r = max 0 (voltage r * current r / 1000) \<and> 0 \<le> power_kw r \<and>
         energy_kwh_step r = power_kw r * (real_of_int (TIME_FREQ_MIN cfg) / 60)"
    if body: "load_data_body cfg g = (Inr df, g')"
  proof
    fix r assume "r \<in> set df"
    then obtain rid' fl' rname' g1 g2 f
      where "generate_room_data cfg rid' fl' rname' g1 = (Inr f, g2)" "r \<in> set f"
      using load_data_body_rows [OF body] by blast
    then show "power_kw r = max 0 (voltage r * current r / 1000) \<and> 0 \<le> power_kw r \<and>
         energy_kwh_step r = power_kw r * (real_of_int (TIME_FREQ_MIN cfg) / 60)"
      by (rule generate_room_data_power)
  qed
  from room all show ?thesis by blast
qed

text \<open>
  The single-point horizon with the generator state \<open>rng0\<close>: one row, off, with 228 V,
  0.3 A, 0.0684 kW and 0.0171 kWh.
\<close>

theorem power_clamped_energy_per_step_witness:
  "generate_room_data POINT ''F1-101'' ''Floor 1'' ''Computer Lab 1'' rng0 =
     (Inr [\<lparr> timestamp = mk_datetime 2025 11 1 0 0, floor_col = ''Floor 1'', room_id = ''F1-101'',
             room_name = ''Computer Lab 1'', voltage = 228, current = 3 / 10,
             power_kw = 684 / 10000, energy_kwh_step = 171 / 10000, is_on = False \<rparr>],
      rng0\<lparr>uniform_pos := 2, normal_pos := 4\<rparr>)
   \<and> (684 / 10000 :: real) = max 0 (228 * (3 / 10) / 1000)
   \<and> (171 / 10000 :: real) = 684 / 10000 * (real_of_int (TIME_FREQ_MIN POINT) / 60)"
  using POINT_room
    power_clamped_energy_per_step [of POINT "''F1-101''" "''Floor 1''" "''Computer Lab 1''" rng0
      "[\<lparr> timestamp = mk_datetime 2025 11 1 0 0, floor_col = ''Floor 1'', room_id = ''F1-101'',
             room_name = ''Computer Lab 1'', voltage = 228, current = 3 / 10,
             power_kw = 684 / 10000, energy_kwh_step = 171 / 10000, is_on = False \<rparr>]"
      "rng0\<lparr>uniform_pos := 2, normal_pos := 4\<rparr>"]
  by simp

text \<open>
  C9. When the uniform variates lie between 0 and 1, one call of \<open>generate_room_data\<close>
  takes exactly two of them: the baseline current, between 7 and 10, and the baseline
  voltage, between 225 and 235. Every row of the frame is built from this one pair: its
  voltage is the baseline voltage plus 2 times a normal variate when on, the baseline
  voltage minus 2 plus a normal variate when off; its current is the baseline current plus
  0.8 times a normal variate when on, and 0.3 plus 0.1 times a normal variate when off.
\<close>

theorem baselines_fixed_per_unit:
  assumes u: "\<forall>k. 0 \<le> uniform_src g k \<and> uniform_src g k < 1"
    and gen: "generate_room_data cfg rid fl rname g = (Inr df, g')"
  shows "\<exists>base_current base_voltage.
      base_current = 7 + (10 - 7) * uniform_src g (uniform_pos g)
    \<and> base_voltage = 225 + (235 - 225) * uniform_src g (Suc (uniform_pos g))
    \<and> 7 \<le> base_current \<and> base_current \<le> 10
    \<and> 225 \<le> base_voltage \<and> base_voltage \<le> 235
    \<and> (\<forall>i < length df.
          voltage (df ! i) =
            (if is_on (df ! i) then base_voltage + 2 * normal_src g (normal_pos g + i)
             else base_voltage - 2 + 1 * normal_src g (normal_pos g + length df + i))
        \<and> current (df ! i) =
            (if is_on (df ! i)
             then base_current + (8 / 10) * normal_src g (normal_pos g + 2 * length df + i)
             else 3 / 10 + (1 / 10) * normal_src g (normal_pos g + 3 * length df + i)))
    \<and> uniform_pos g' = uniform_pos g + 2 \<and> uniform_src g' = uniform_src g"
proof -
  obtain idx where idx: "date_range (START_DATE cfg) (END_DATE cfg) (TIME_FREQ_MIN cfg) = Inr idx"
    using generate_room_data_Inr [OF gen] by blast
  note rows = generate_room_data_rows [OF idx, of rid fl rname g]
  have len: "length df = length idx"
    using gen rows by auto
  have g': "uniform_pos g' = uniform_pos g + 2 \<and> uniform_src g' = uniform_src g"
    using gen rows by auto
  have u0: "0 \<le> uniform_src g (uniform_pos g) \<and> uniform_src g (uniform_pos g) < 1"
    and u1: "0 \<le> uniform_src g (Suc (uniform_pos g)) \<and> uniform_src g (Suc (uniform_pos g)) < 1"
    using u by blast+
  have rows': "\<forall>i < length df.
          voltage (df ! i) =
            (if is_on (df ! i) then (225 + (235 - 225) * uniform_src g (Suc (uniform_pos g))) + 2 * normal_src g (normal_pos g + i)
             else (225 + (235 - 225) * uniform_src g (Suc (uniform_pos g))) - 2 + 1 * normal_src g (normal_pos g + length df + i))
        \<and> current (df ! i) =
            (if is_on (df ! i)
             then (7 + (10 - 7) * uniform_src g (uniform_pos g)) + (8 / 10) * normal_src g (normal_pos g + 2 * length df + i)
             else 3 / 10 + (1 / 10) * normal_src g (normal_pos g + 3 * length df + i))"
  proof (intro allI impI)
    fix i assume i: "i < length df"
    have a2: "normal_pos g + 2 * length idx + i = normal_pos g + length idx + length idx + i"
      and a3: "normal_pos g + 3 * length idx + i = normal_pos g + length idx + length idx + length idx + i"
      by simp_all
    show "voltage (df ! i) =
            (if is_on (df ! i) then (225 + (235 - 225) * uniform_src g (Suc (uniform_pos g))) + 2 * normal_src g (normal_pos g + i)
             else (225 + (235 - 225) * uniform_src g (Suc (uniform_pos g))) - 2 + 1 * normal_src g (normal_pos g + length df + i))
        \<and> current (df ! i) =
            (if is_on (df ! i)
             then (7 + (10 - 7) * uniform_src g (uniform_pos g)) + (8 / 10) * normal_src g (normal_pos g + 2 * length df + i)
             else 3 / 10 + (1 / 10) * normal_src g (normal_pos g + 3 * length df + i))"
      unfolding len a2 a3 using gen i len unfolding rows by auto
  qed
  from u0 u1 g' rows' show ?thesis by simp
qed

lemma rng1_uniform: "\<forall>k. 0 \<le> uniform_src rng1 k \<and> uniform_src rng1 k < 1"
  by (simp add: rng1_def)

lemma MORNING_index:
  "date_range (START_DATE MORNING) (END_DATE MORNING) (TIME_FREQ_MIN MORNING) =
     Inr [mk_datetime 2025 11 3 8 45, mk_datetime 2025 11 3 9 0, mk_datetime 2025 11 3 9 15]"
  by (simp add: MORNING_def date_range_def calendar_defs upt_conv_Cons)

lemma MORNING_on:
  "\<not> is_ac_on (mk_datetime 2025 11 3 8 45)" "is_ac_on (mk_datetime 2025 11 3 9 0)"
  "is_ac_on (mk_datetime 2025 11 3 9 15)"
  by (simp_all add: is_ac_on_def calendar_defs WEEKDAY_SCHEDULE_def)

lemma MORNING_room:
  "generate_room_data MORNING ''F1-101'' ''Floor 1'' ''Computer Lab 1'' rng1 =
     (Inr [\<lparr> timestamp = mk_datetime 2025 11 3 8 45, floor_col = ''Floor 1'', room_id = ''F1-101'',
             room_name = ''Computer Lab 1'', voltage = 2283 / 10, current = 39 / 100,
             power_kw = 89037 / 1000000, energy_kwh_step = 89037 / 4000000, is_on = False \<rparr>,
           \<lparr> timestamp = mk_datetime 2025 11 3 9 0, floor_col = ''Floor 1'', room_id = ''F1-101'',
             room_name = ''Computer Lab 1'', voltage = 2302 / 10, current = 856 / 100,
             power_kw = 1970512 / 1000000, energy_kwh_step = 1970512 / 4000000, is_on = True \<rparr>,
           \<lparr> timestamp = mk_datetime 2025 11 3 9 15, floor_col = ''Floor 1'', room_id = ''F1-101'',
             room_name = ''Computer Lab 1'', voltage = 2304 / 10, current = 864 / 100,
             power_kw = 1990656 / 1000000, energy_kwh_step = 1990656 / 4000000, is_on = True \<rparr>],
      rng1\<lparr>uniform_pos := 2, normal_pos := 12\<rparr>)"
  unfolding generate_room_data_def MORNING_index
  by (simp add: MORNING_on rng1_def random_uniform_def random_normal_def np_where_def
      np_clip_min_def DataFrame_def MORNING_def)

text \<open>
  Three rows, the first off and the next two on, under the generator state \<open>rng1\<close>: the
  baselines are 8 and 230 in every row (a third uniform variate would have given 9.7 and
  234), only the normal variates differ from row to row, and two uniform variates are
  consumed.
\<close>

theorem baselines_fixed_per_unit_witness:
  "(\<forall>k. 0 \<le> uniform_src rng1 k \<and> uniform_src rng1 k < 1)
   \<and> (\<exists>df g'. generate_room_data MORNING ''F1-101'' ''Floor 1'' ''Computer Lab 1'' rng1 = (Inr df, g')
        \<and> map is_on df = [False, True, True]
        \<and> map voltage df = [230 - 2 + 1 * (3 / 10), 230 + 2 * (1 / 10), 230 + 2 * (2 / 10)]
        \<and> map current df
            = [3 / 10 + (1 / 10) * (9 / 10), 8 + (8 / 10) * (7 / 10), 8 + (8 / 10) * (8 / 10)]
        \<and> uniform_pos g' = 2)
   \<and> (7 :: real) + (10 - 7) * uniform_src rng1 0 = 8
   \<and> (225 :: real) + (235 - 225) * uniform_src rng1 1 = 230
   \<and> uniform_src rng1 2 = 9 / 10"
  using rng1_uniform MORNING_room baselines_fixed_per_unit [OF rng1_uniform MORNING_room]
  by (simp add: rng1_def)

text \<open>
  C6. After a call of the cached \<open>load_data\<close> has returned a data set, every later call
  on the cache it left returns the same data set, whatever the state of the generator by
  then, and draws nothing from the generator.
\<close>

theorem load_data_idempotent:
  assumes "load_data cfg cache0 g0 = (Inr df1, cache1, g1)"
  shows "load_data cfg cache1 g2 = (Inr df1, cache1, g2)"
proof (cases cache0)
  case None
  then have "cache1 = Some df1"
    using assms unfolding load_data_def
    by (cases "load_data_body cfg g0"; cases "fst (load_data_body cfg g0)") auto
  then show ?thesis by (simp add: load_data_def)
next
  case (Some d)
  then have "cache1 = Some df1"
    using assms by (auto simp: load_data_def)
  then show ?thesis by (simp add: load_data_def)
qed

text \<open>A first call on the empty cache, and two later calls.\<close>

theorem load_data_idempotent_witness:
  "\<exists>df g1. load_data POINT None rng0 = (Inr df, Some df, g1)
     \<and> load_data POINT (Some df) g1 = (Inr df, Some df, g1)
     \<and> load_data POINT (Some df) rng0 = (Inr df, Some df, rng0)"
proof -
  obtain fs g1 where body: "load_data_body POINT rng0 = (Inr (concat fs), g1)"
    using load_data_body_frames [OF POINT_index, of rng0] by blast
  have first: "load_data POINT None rng0 = (Inr (concat fs), Some (concat fs), g1)"
    by (simp add: load_data_def body)
  from first load_data_idempotent [OF first, of g1] load_data_idempotent [OF first, of rng0]
  show ?thesis by blast
qed

text \<open>
  C1, as the specification states it: with \<open>horizon_end < horizon_start\<close> the generator
  fails before it samples. It does not: with the horizon of the program reversed, the
  index is empty, the two baselines are drawn, and the empty frame is returned.
\<close>

theorem generate_room_data_reversed_counterexample:
  "generate_room_data
     \<lparr> START_DATE = mk_datetime 2025 11 15 23 45, END_DATE = mk_datetime 2025 11 1 0 0,
       TIME_FREQ_MIN = 15 \<rparr>
     ''F1-101'' ''Floor 1'' ''Computer Lab 1'' rng0
   = (Inr [], rng0\<lparr>uniform_pos := 2\<rparr>)"
proof -
  have "date_range (mk_datetime 2025 11 15 23 45) (mk_datetime 2025 11 1 0 0) 15 = Inr []"
    by (simp add: date_range_def calendar_defs)
  then show ?thesis
    unfolding generate_room_data_def
    by (simp add: rng0_def random_uniform_def random_normal_def np_where_def
      np_clip_min_def DataFrame_def)
qed

text \<open>
  C1, amended. The generator does not validate its configuration. For every step other
  than zero, a negative one included, and every horizon, \<open>generate_room_data\<close> returns a
  frame and \<open>load_data\<close> a data set: the frame has as many rows as \<open>pd.date_range\<close> has
  points, after two uniform draws and four normal draws per row. In particular, with a
  positive step and the end before the start, \<open>generate_room_data\<close> returns the empty frame
  after its two baseline draws, and \<open>load_data\<close> builds the empty data set. Only with a
  step of zero does \<open>pd.date_range\<close> raise: \<open>generate_room_data\<close> and \<open>load_data\<close> end with
  that exception before anything is drawn from the generator.
\<close>

theorem horizon_not_validated:
  "(TIME_FREQ_MIN cfg \<noteq> 0 \<longrightarrow>
      (\<exists>df g'. generate_room_data cfg rid fl rname g = (Inr df, g')
         \<and> int (length df) =
             max 0 ((END_DATE cfg - START_DATE cfg) div (TIME_FREQ_MIN cfg * US_PER_MIN) + 1)
         \<and> g' = g\<lparr>uniform_pos := uniform_pos g + 2,
                    normal_pos := normal_pos g + 4 * length df\<rparr>)
      \<and> (\<exists>df g'. load_data_body cfg g = (Inr df, g')))
   \<and> (0 < TIME_FREQ_MIN cfg \<and> END_DATE cfg < START_DATE cfg \<longrightarrow>
      generate_room_data cfg rid fl rname g = (Inr [], g\<lparr>uniform_pos := uniform_pos g + 2\<rparr>)
      \<and> fst (load_data_body cfg g) = Inr [])
   \<and> (TIME_FREQ_MIN cfg = 0 \<longrightarrow>
      generate_room_data cfg rid fl rname g = (Inl ZeroDivisionError, g)
      \<and> load_data_body cfg g = (Inl ZeroDivisionError, g))"
proof -
  have nonzero: "(\<exists>df g'. generate_room_data cfg rid fl rname g = (Inr df, g')
         \<and> int (length df) =
             max 0 ((END_DATE cfg - START_DATE cfg) div (TIME_FREQ_MIN cfg * US_PER_MIN) + 1)
         \<and> g' = g\<lparr>uniform_pos := uniform_pos g + 2,
                    normal_pos := normal_pos g + 4 * length df\<rparr>)
      \<and> (\<exists>df g'. load_data_body cfg g = (Inr df, g'))"
    if nz: "TIME_FREQ_MIN cfg \<noteq> 0"
  proof -
    let ?idx = "map (\<lambda>k. START_DATE cfg + int k * (TIME_FREQ_MIN cfg * US_PER_MIN))
        [0..<nat ((END_DATE cfg - START_DATE cfg) div (TIME_FREQ_MIN cfg * US_PER_MIN) + 1)]"
    have idx: "date_range (START_DATE cfg) (END_DATE cfg) (TIME_FREQ_MIN cfg) = Inr ?idx"
      using nz by (rule date_range_Inr)
    have len: "int (length ?idx) =
        max 0 ((END_DATE cfg - START_DATE cfg) div (TIME_FREQ_MIN cfg * US_PER_MIN) + 1)"
      by simp
    have room: "\<exists>df g'. generate_room_data cfg rid fl rname g = (Inr df, g')
         \<and> int (length df) =
             max 0 ((END_DATE cfg - START_DATE cfg) div (TIME_FREQ_MIN cfg * US_PER_MIN) + 1)
         \<and> g' = g\<lparr>uniform_pos := uniform_pos g + 2,
                    normal_pos := normal_pos g + 4 * length df\<rparr>"
      unfolding generate_room_data_rows [OF idx, of rid fl rname g] using len by simp
    have "\<exists>df g'. load_data_body cfg g = (Inr df, g')"
      using load_data_body_frames [OF idx, of g] by blast
    with room show ?thesis by blast
  qed
  have rev: "generate_room_data cfg rid fl rname g = (Inr [], g\<lparr>uniform_pos := uniform_pos g + 2\<rparr>)
      \<and> fst (load_data_body cfg g) = Inr []"
    if "0 < TIME_FREQ_MIN cfg" and "END_DATE cfg < START_DATE cfg"
  proof -
    have idx: "date_range (START_DATE cfg) (END_DATE cfg) (TIME_FREQ_MIN cfg) = Inr []"
      using that by (rule date_range_reversed)
    show ?thesis
      using generate_room_data_rows [OF idx, of rid fl rname g] load_data_body_empty [OF idx, of g]
      by simp
  qed
  have zero: "generate_room_data cfg rid fl rname g = (Inl ZeroDivisionError, g)
      \<and> load_data_body cfg g = (Inl ZeroDivisionError, g)"
    if "TIME_FREQ_MIN cfg = 0"
  proof -
    have idx: "date_range (START_DATE cfg) (END_DATE cfg) (TIME_FREQ_MIN cfg) = Inl ZeroDivisionError"
      using that by (simp add: date_range_zero)
    show ?thesis
      using generate_room_data_Inl [OF idx] load_data_body_Inl [OF idx] by simp
  qed
  from nonzero rev zero show ?thesis by blast
qed

text \<open>
  The horizon of the program reversed; the horizon of the program with step 0; a step of
  -15 minutes from 00:30 down to 00:00, which gives three rows; and the horizon of the
  program with a step of -15 minutes.
\<close>

theorem horizon_not_validated_witness:
  "fst (load_data_body \<lparr> START_DATE = mk_datetime 2025 11 15 23 45,
        END_DATE = mk_datetime 2025 11 1 0 0, TIME_FREQ_MIN = 15 \<rparr> rng0) = Inr []
   \<and> load_data_body \<lparr> START_DATE = mk_datetime 2025 11 1 0 0,
        END_DATE = mk_datetime 2025 11 15 23 45, TIME_FREQ_MIN = 0 \<rparr> rng0
      = (Inl ZeroDivisionError, rng0)
   \<and> (\<exists>df. generate_room_data \<lparr> START_DATE = mk_datetime 2025 11 1 0 30,
        END_DATE = mk_datetime 2025 11 1 0 0, TIME_FREQ_MIN = - 15 \<rparr>
          ''F1-101'' ''Floor 1'' ''Computer Lab 1'' rng0
        = (Inr df, rng0\<lparr>uniform_pos := 2, normal_pos := 12\<rparr>) \<and> length df = 3)
   \<and> (\<exists>df g'. load_data_body \<lparr> START_DATE = mk_datetime 2025 11 1 0 0,
        END_DATE = mk_datetime 2025 11 15 23 45, TIME_FREQ_MIN = - 15 \<rparr> rng0 = (Inr df, g'))"
proof -
  let ?down = "\<lparr> START_DATE = mk_datetime 2025 11 1 0 30,
        END_DATE = mk_datetime 2025 11 1 0 0, TIME_FREQ_MIN = - 15 \<rparr>"
  have n: "(END_DATE ?down - START_DATE ?down) div (TIME_FREQ_MIN ?down * US_PER_MIN) + 1 = 3"
    by (simp add: calendar_defs)
  have down: "\<exists>df. generate_room_data ?down ''F1-101'' ''Floor 1'' ''Computer Lab 1'' rng0
        = (Inr df, rng0\<lparr>uniform_pos := 2, normal_pos := 12\<rparr>) \<and> length df = 3"
    using horizon_not_validated [of ?down "''F1-101''" "''Floor 1''" "''Computer Lab 1''" rng0]
    unfolding n by (auto simp: rng0_def)
  show ?thesis
    using down
      horizon_not_validated [of "\<lparr> START_DATE = mk_datetime 2025 11 15 23 45,
        END_DATE = mk_datetime 2025 11 1 0 0, TIME_FREQ_MIN = 15 \<rparr>" _ _ _ rng0]
      horizon_not_validated [of "\<lparr> START_DATE = mk_datetime 2025 11 1 0 0,
        END_DATE = mk_datetime 2025 11 15 23 45, TIME_FREQ_MIN = 0 \<rparr>" _ _ _ rng0]
      horizon_not_validated [of "\<lparr> START_DATE = mk_datetime 2025 11 1 0 0,
        END_DATE = mk_datetime 2025 11 15 23 45, TIME_FREQ_MIN = - 15 \<rparr>" _ _ _ rng0]
    by (simp add: calendar_defs)
qed

section \<open>The timestamps of a unit\<close>

lemma generate_room_data_keys:
  assumes idx: "date_range (START_DATE cfg) (END_DATE cfg) (TIME_FREQ_MIN cfg) = Inr idx"
    and gen: "generate_room_data cfg rid fl rname g = (Inr f, g')"
  shows "map (\<lambda>r. (room_id r, timestamp r)) f = map (Pair rid) idx"
proof -
  have "map (\<lambda>r. (room_id r, timestamp r)) f = map (\<lambda>i. (rid, idx ! i)) [0..<length idx]"
    using gen generate_room_data_rows [OF idx, of rid fl rname g] by (auto simp: comp_def)
  also have "\<dots> = map (Pair rid) (map ((!) idx) [0..<length idx])"
    by (simp add: comp_def)
  also have "\<dots> = map (Pair rid) idx"
    by (simp only: map_nth)
  finally show ?thesis .
qed

lemma frames_keys:
  assumes idx: "date_range (START_DATE cfg) (END_DATE cfg) (TIME_FREQ_MIN cfg) = Inr idx"
    and a: "list_all2 (\<lambda>(fl, rid, rname) f. \<exists>g1 g2. generate_room_data cfg rid fl rname g1 = (Inr f, g2))
                units fs"
  shows "map (\<lambda>r. (room_id r, timestamp r)) (concat fs)
       = concat (map (\<lambda>(fl, rid, rname). map (Pair rid) idx) units)"
  using a
proof (induction units fs rule: list_all2_induct)
  case Nil
  then show ?case by simp
next
  case (Cons u us f fs)
  obtain fl rid rname where u: "u = (fl, rid, rname)" by (cases u)
  have "map (\<lambda>r. (room_id r, timestamp r)) f = map (Pair rid) idx"
    using Cons.hyps(1) generate_room_data_keys [OF idx] by (auto simp: u)
  then show ?case
    using Cons.IH by (simp add: u)
qed

lemma select_unit:
  "map snd (filter (\<lambda>p. fst p = rid)
      (concat (map (\<lambda>(fl, rid', rname). map (Pair rid') idx) units)))
   = concat (map (\<lambda>(fl, rid', rname). if rid' = rid then idx else []) units)"
  by (induction units) (auto simp: comp_def filter_map)

lemma select_unit_distinct:
  assumes "distinct (map (\<lambda>(fl, rid', rname). rid') units)" and "(fl, rid, rname) \<in> set units"
  shows "concat (map (\<lambda>(fl, rid', rname). if rid' = rid then idx else []) units) = idx"
  using assms
proof (induction units)
  case Nil
  then show ?case by simp
next
  case (Cons u us)
  obtain fl' rid' rname' where u: "u = (fl', rid', rname')" by (cases u)
  show ?case
  proof (cases "rid' = rid")
    case True
    then have "\<forall>x \<in> set us. (case x of (fl, r, rname) \<Rightarrow> r) \<noteq> rid"
      using Cons.prems(1) by (force simp: u)
    then have "concat (map (\<lambda>(fl, rid', rname). if rid' = rid then idx else []) us) = []"
      by (auto simp: split_def)
    then show ?thesis using True by (simp add: u)
  next
    case False
    then have "(fl, rid, rname) \<in> set us"
      using Cons.prems(2) by (auto simp: u)
    then show ?thesis
      using Cons.IH Cons.prems(1) False by (simp add: u)
  qed
qed

lemma FLOORS_distinct: "distinct (map (\<lambda>(fl, rid', rname). rid') (units_of FLOORS))"
  by (simp add: units_of_def FLOORS_def)

lemma units_of_mem:
  "(fl, rooms) \<in> set floors \<Longrightarrow> (rid, rname) \<in> set rooms \<Longrightarrow> (fl, rid, rname) \<in> set (units_of floors)"
  by (auto simp: units_of_def)

lemma unit_timestamps:
  assumes idx: "date_range (START_DATE cfg) (END_DATE cfg) (TIME_FREQ_MIN cfg) = Inr idx"
    and fl: "(fl, rooms) \<in> set FLOORS" and room: "(rid, rname) \<in> set rooms"
  shows "\<exists>df g'. load_data_body cfg g = (Inr df, g')
           \<and> map timestamp (filter (\<lambda>r. room_id r = rid) df) = idx"
proof -
  obtain fs g' where body: "load_data_body cfg g = (Inr (concat fs), g')"
    and a: "list_all2 (\<lambda>(fl, rid, rname) f. \<exists>g1 g2. generate_room_data cfg rid fl rname g1 = (Inr f, g2))
                (units_of FLOORS) fs"
    using load_data_body_frames [OF idx] by blast
  have "map timestamp (filter (\<lambda>r. room_id r = rid) (concat fs))
      = map snd (filter (\<lambda>p. fst p = rid) (map (\<lambda>r. (room_id r, timestamp r)) (concat fs)))"
    by (simp add: filter_map comp_def)
  also have "\<dots> = concat (map (\<lambda>(fl, rid', rname). if rid' = rid then idx else []) (units_of FLOORS))"
    unfolding frames_keys [OF idx a] by (rule select_unit)
  also have "\<dots> = idx"
    using FLOORS_distinct units_of_mem [OF fl room] by (rule select_unit_distinct)
  finally show ?thesis using body by blast
qed


lemma grid_facts:
  fixes s e step :: int
  assumes step: "0 < step" and se: "s \<le> e" and al: "(e - s) mod step = 0"
  defines "n \<equiv> nat ((e - s) div step + 1)"
  defines "ts \<equiv> map (\<lambda>k. s + int k * step) [0..<n]"
  shows "length ts = n \<and> distinct ts \<and> hd ts = s \<and> last ts = e
       \<and> (\<forall>k. Suc k < n \<longrightarrow> ts ! Suc k = ts ! k + step)"
proof -
  have q: "0 \<le> (e - s) div step"
    using step se by (simp add: pos_imp_zdiv_nonneg_iff)
  then have n: "n = Suc (nat ((e - s) div step))"
    unfolding n_def by (simp add: nat_add_distrib)
  have len: "length ts = n"
    by (simp add: ts_def)
  have "inj_on (\<lambda>k. s + int k * step) (set [0..<n])"
    using step by (auto simp: inj_on_def)
  then have dist: "distinct ts"
    unfolding ts_def by (simp add: distinct_map)
  have hd: "hd ts = s"
    unfolding ts_def n by (simp add: upt_conv_Cons del: upt_Suc)
  have "last ts = s + int (nat ((e - s) div step)) * step"
    unfolding ts_def n by simp
  also have "\<dots> = s + (e - s) div step * step"
    using q by simp
  also have "\<dots> = e"
    using al by (simp add: algebra_simps mod_eq_0_iff_dvd)
  finally have last: "last ts = e" .
  have gap: "\<forall>k. Suc k < n \<longrightarrow> ts ! Suc k = ts ! k + step"
    unfolding ts_def by (auto simp: algebra_simps)
  from len dist hd last gap show ?thesis by blast
qed

text \<open>
  C4. For a valid horizon (a positive step, the start not after the end, the end on the
  step grid of the start) \<open>load_data\<close> returns a data set, and in it the timestamps of the
  rows of every unit of \<open>FLOORS\<close>, in their order, are exactly the grid start,
  start + step, ..., end: their number is (end - start) / step + 1, consecutive ones are one
  step apart, and none occurs twice.
\<close>

theorem unit_timestamps_regular_grid:
  assumes step: "0 < TIME_FREQ_MIN cfg" and se: "START_DATE cfg \<le> END_DATE cfg"
    and al: "(END_DATE cfg - START_DATE cfg) mod (TIME_FREQ_MIN cfg * US_PER_MIN) = 0"
    and fl: "(fl, rooms) \<in> set FLOORS" and room: "(rid, rname) \<in> set rooms"
  shows "\<exists>df g'. load_data_body cfg g = (Inr df, g') \<and>
     (let step = TIME_FREQ_MIN cfg * US_PER_MIN;
          n = nat ((END_DATE cfg - START_DATE cfg) div step + 1);
          ts = map timestamp (filter (\<lambda>r. room_id r = rid) df)
      in ts = map (\<lambda>k. START_DATE cfg + int k * step) [0..<n]
         \<and> length ts = n \<and> distinct ts \<and> hd ts = START_DATE cfg \<and> last ts = END_DATE cfg
         \<and> (\<forall>k. Suc k < n \<longrightarrow> ts ! Suc k = ts ! k + step))"
proof -
  let ?step = "TIME_FREQ_MIN cfg * US_PER_MIN"
  let ?n = "nat ((END_DATE cfg - START_DATE cfg) div ?step + 1)"
  let ?grid = "map (\<lambda>k. START_DATE cfg + int k * ?step) [0..<?n]"
  have pos: "0 < ?step"
    using step US_PER_MIN_pos by simp
  have idx: "date_range (START_DATE cfg) (END_DATE cfg) (TIME_FREQ_MIN cfg) = Inr ?grid"
    using step by (simp add: date_range_Inr)
  obtain df g' where body: "load_data_body cfg g = (Inr df, g')"
    and ts: "map timestamp (filter (\<lambda>r. room_id r = rid) df) = ?grid"
    using unit_timestamps [OF idx fl room] by blast
  have len: "length (filter (\<lambda>r. room_id r = rid) df) = ?n"
    using arg_cong [OF ts, of length] by simp
  show ?thesis
    unfolding Let_def
    apply (rule exI [of _ df], rule exI [of _ g'])
    unfolding ts
    using grid_facts [OF pos se al] body len by simp
qed

text \<open>
  The horizon of the program: room F2-202 has 1440 rows, from 1 November 2025 00:00 to
  15 November 2025 23:45.
\<close>

theorem unit_timestamps_regular_grid_witness:
  "\<exists>df g'. load_data_body CONFIG rng0 = (Inr df, g')
     \<and> length (filter (\<lambda>r. room_id r = ''F2-202'') df) = 1440
     \<and> hd (map timestamp (filter (\<lambda>r. room_id r = ''F2-202'') df)) = mk_datetime 2025 11 1 0 0
     \<and> last (map timestamp (filter (\<lambda>r. room_id r = ''F2-202'') df)) = mk_datetime 2025 11 15 23 45"
proof -
  have step: "0 < TIME_FREQ_MIN CONFIG" and se: "START_DATE CONFIG \<le> END_DATE CONFIG"
    and al: "(END_DATE CONFIG - START_DATE CONFIG) mod (TIME_FREQ_MIN CONFIG * US_PER_MIN) = 0"
    by (simp_all add: CONFIG_def calendar_defs)
  have fl: "(''Floor 2'', [(''F2-201'', ''Classroom 201''), (''F2-202'', ''Classroom 202''),
      (''F2-203'', ''Seminar Room'')]) \<in> set FLOORS"
    by (simp add: FLOORS_def)
  have room: "(''F2-202'', ''Classroom 202'') \<in> set [(''F2-201'', ''Classroom 201''),
      (''F2-202'', ''Classroom 202''), (''F2-203'', ''Seminar Room'')]"
    by simp
  have n: "nat ((END_DATE CONFIG - START_DATE CONFIG) div (TIME_FREQ_MIN CONFIG * US_PER_MIN) + 1) = 1440"
    by (simp add: CONFIG_def calendar_defs)
  have ends: "START_DATE CONFIG = mk_datetime 2025 11 1 0 0"
    "END_DATE CONFIG = mk_datetime 2025 11 15 23 45"
    by (simp_all add: CONFIG_def)
  obtain df g' where body: "load_data_body CONFIG rng0 = (Inr df, g')"
    and grid: "length (map timestamp (filter (\<lambda>r. room_id r = ''F2-202'') df)) = 1440"
      "hd (map timestamp (filter (\<lambda>r. room_id r = ''F2-202'') df)) = mk_datetime 2025 11 1 0 0"
      "last (map timestamp (filter (\<lambda>r. room_id r = ''F2-202'') df)) = mk_datetime 2025 11 15 23 45"
    using unit_timestamps_regular_grid [OF step se al fl room, of rng0]
    unfolding Let_def n unfolding ends by blast
  then show ?thesis by auto
qed

end
